theory Spec2Isabelle
  imports Main
begin

section \<open>JavaScript values\<close>

text \<open>
  superschema (src/index.js) validates an arbitrary JavaScript value against a pattern that
  is itself a JavaScript value (a string or an object literal).  Values are modelled as
  finite trees.  Objects, arrays, functions and dates carry a reference, because \<open>===\<close>
  compares them by identity.  An object is the list of its own enumerable properties in
  enumeration order, each key once; an array is dense.  Numbers are \<open>NaN\<close> and the safe
  integers, the integers of magnitude below \<open>2^53\<close>, which a double holds exactly and
  JavaScript prints in plain decimal: the program only compares numbers with \<open>===\<close>,
  tests their truthiness and prints them.
\<close>

type_synonym ref = nat

datatype jsnum = NaN | Fin int

datatype jsval =
    Undefined
  | Null
  | Bool bool
  | Num jsnum
  | Str string
  | Obj ref "(string \<times> jsval) list"
  | Arr ref "jsval list"
  | Func ref
  | DateObj ref

text \<open>
  What a call can throw: the program's own \<open>BackendError(message, code, status)\<close>, the
  engine's \<open>TypeError\<close> (reading a property of \<open>null\<close>, calling something that is not a
  function), or whatever a function supplied by the caller throws.
\<close>

datatype exn =
    BackendError string string nat
  | TypeError
  | Thrown jsval

text \<open>
  The parts of the run-time environment the program reaches but does not define: what a
  function value does when it is called, which members the built-in prototypes provide
  under a name, and how an object is converted to text (as a property key, and as an
  operand of string concatenation).
\<close>

datatype proto = ObjectPrototype | ArrayPrototype | FunctionPrototype | DatePrototype

record host =
  invoke :: "ref \<Rightarrow> jsval list \<Rightarrow> exn + jsval"
  prototype :: "proto \<Rightarrow> string \<Rightarrow> jsval option"
  objectToKey :: "jsval \<Rightarrow> exn + string"
  objectToText :: "jsval \<Rightarrow> exn + string"

subsection \<open>Operators of the language\<close>

text \<open>\<open>typeof v\<close>.\<close>

fun typeOf :: "jsval \<Rightarrow> string" where
  "typeOf Undefined = ''undefined''"
| "typeOf Null = ''object''"
| "typeOf (Bool b) = ''boolean''"
| "typeOf (Num n) = ''number''"
| "typeOf (Str s) = ''string''"
| "typeOf (Obj r ps) = ''object''"
| "typeOf (Arr r xs) = ''object''"
| "typeOf (Func r) = ''function''"
| "typeOf (DateObj r) = ''object''"

text \<open>Truthiness, as tested by \<open>if (v)\<close>, \<open>!v\<close> and \<open>v || w\<close>.\<close>

fun truthy :: "jsval \<Rightarrow> bool" where
  "truthy Undefined = False"
| "truthy Null = False"
| "truthy (Bool b) = b"
| "truthy (Num NaN) = False"
| "truthy (Num (Fin i)) = (i \<noteq> 0)"
| "truthy (Str s) = (s \<noteq> [])"
| "truthy (Obj r ps) = True"
| "truthy (Arr r xs) = True"
| "truthy (Func r) = True"
| "truthy (DateObj r) = True"

text \<open>\<open>a === b\<close>: primitives by value (\<open>NaN\<close> equals nothing), objects by identity.\<close>

definition strictEq :: "jsval \<Rightarrow> jsval \<Rightarrow> bool" where
  "strictEq a b =
     (case a of
        Undefined \<Rightarrow> b = Undefined
      | Null \<Rightarrow> b = Null
      | Bool x \<Rightarrow> b = Bool x
      | Num n \<Rightarrow> n \<noteq> NaN \<and> b = Num n
      | Str s \<Rightarrow> b = Str s
      | Obj r ps \<Rightarrow> (case b of Obj r' ps' \<Rightarrow> r = r' | _ \<Rightarrow> False)
      | Arr r xs \<Rightarrow> (case b of Arr r' xs' \<Rightarrow> r = r' | _ \<Rightarrow> False)
      | Func r \<Rightarrow> (case b of Func r' \<Rightarrow> r = r' | _ \<Rightarrow> False)
      | DateObj r \<Rightarrow> (case b of DateObj r' \<Rightarrow> r = r' | _ \<Rightarrow> False))"

text \<open>
  Decimal rendering of an array index and of a number.  \<open>Fin i\<close> stands for a safe
  integer; beyond \<open>10^21\<close> JavaScript would print an exponent, which is outside the
  numbers modelled here.
\<close>

fun showNat :: "nat \<Rightarrow> string" where
  "showNat n = (if n < 10 then [''0123456789'' ! n]
                else showNat (n div 10) @ [''0123456789'' ! (n mod 10)])"

declare showNat.simps [simp del]

fun numToString :: "jsnum \<Rightarrow> string" where
  "numToString NaN = ''NaN''"
| "numToString (Fin i) = (if i < 0 then ''-'' @ showNat (nat (- i)) else showNat (nat i))"

text \<open>
  Conversion of a value to a property key (\<open>o[v]\<close>) and to text (\<open>"..." + v\<close>).  Both
  are fixed for primitives; for objects they run the object's own conversion methods.
\<close>

fun toPropertyKey :: "host \<Rightarrow> jsval \<Rightarrow> exn + string" where
  "toPropertyKey h Undefined = Inr ''undefined''"
| "toPropertyKey h Null = Inr ''null''"
| "toPropertyKey h (Bool b) = Inr (if b then ''true'' else ''false'')"
| "toPropertyKey h (Num n) = Inr (numToString n)"
| "toPropertyKey h (Str s) = Inr s"
| "toPropertyKey h v = objectToKey h v"

fun concatString :: "host \<Rightarrow> jsval \<Rightarrow> exn + string" where
  "concatString h Undefined = Inr ''undefined''"
| "concatString h Null = Inr ''null''"
| "concatString h (Bool b) = Inr (if b then ''true'' else ''false'')"
| "concatString h (Num n) = Inr (numToString n)"
| "concatString h (Str s) = Inr s"
| "concatString h v = objectToText h v"

text \<open>\<open>s.split(c)\<close> for a one-character separator, and \<open>ws.join(sep)\<close>.\<close>

fun js_split :: "char \<Rightarrow> string \<Rightarrow> string list" where
  "js_split c [] = [[]]"
| "js_split c (x # xs) =
     (if x = c then [] # js_split c xs
      else (case js_split c xs of [] \<Rightarrow> [[x]] | w # ws \<Rightarrow> (x # w) # ws))"

fun js_join :: "string \<Rightarrow> string list \<Rightarrow> string" where
  "js_join sep [] = []"
| "js_join sep [w] = w"
| "js_join sep (w # ws) = w @ sep @ js_join sep ws"

text \<open>
  Own properties.  An array owns its indices (enumerable) and \<open>length\<close> (not enumerable).
\<close>

fun enumerableProps :: "jsval \<Rightarrow> (string \<times> jsval) list" where
  "enumerableProps (Obj r ps) = ps"
| "enumerableProps (Arr r xs) = zip (map showNat [0..<length xs]) xs"
| "enumerableProps v = []"

fun ownProps :: "jsval \<Rightarrow> (string \<times> jsval) list" where
  "ownProps (Arr r xs) = enumerableProps (Arr r xs) @ [(''length'', Num (Fin (int (length xs))))]"
| "ownProps v = enumerableProps v"

text \<open>
  \<open>pattern.key\<close> where the program reads a pattern.  Patterns are object literals, and
  none of the names read from a pattern (\<open>__type\<close>, \<open>__required\<close>, \<open>__nullable\<close>,
  \<open>__allowedValues\<close>, \<open>__elements\<close>, \<open>__value\<close>, or a key that \<open>for ... in\<close> has just
  enumerated as an own property) is supplied by a built-in prototype, so the read is a read
  of an own property.  Reading from \<open>null\<close> or \<open>undefined\<close> throws.
\<close>

fun getOwn :: "jsval \<Rightarrow> string \<Rightarrow> exn + jsval" where
  "getOwn Undefined k = Inl TypeError"
| "getOwn Null k = Inl TypeError"
| "getOwn v k = (case map_of (ownProps v) k of Some x \<Rightarrow> Inr x | None \<Rightarrow> Inr Undefined)"

text \<open>
  \<open>v[key]\<close> on any other value: the own property, else the member found along the
  prototype chain, else \<open>undefined\<close>.  The program reads this way only from values whose
  \<open>typeof\<close> is \<open>"object"\<close>.
\<close>

fun protoChain :: "jsval \<Rightarrow> proto list" where
  "protoChain (Arr r xs) = [ArrayPrototype, ObjectPrototype]"
| "protoChain (Func r) = [FunctionPrototype, ObjectPrototype]"
| "protoChain (DateObj r) = [DatePrototype, ObjectPrototype]"
| "protoChain v = [ObjectPrototype]"

fun chainLookup :: "host \<Rightarrow> proto list \<Rightarrow> string \<Rightarrow> jsval" where
  "chainLookup h [] k = Undefined"
| "chainLookup h (p # ps) k = (case prototype h p k of Some x \<Rightarrow> x | None \<Rightarrow> chainLookup h ps k)"

fun getProp :: "host \<Rightarrow> jsval \<Rightarrow> string \<Rightarrow> exn + jsval" where
  "getProp h Undefined k = Inl TypeError"
| "getProp h Null k = Inl TypeError"
| "getProp h v k =
     (case map_of (ownProps v) k of
        Some x \<Rightarrow> Inr x
      | None \<Rightarrow> Inr (chainLookup h (protoChain v) k))"

text \<open>\<open>f(args)\<close>: calling a value that is not a function throws a \<open>TypeError\<close>.\<close>

fun callValue :: "host \<Rightarrow> jsval \<Rightarrow> jsval list \<Rightarrow> exn + jsval" where
  "callValue h (Func r) args = invoke h r args"
| "callValue h v args = Inl TypeError"

text \<open>
  \<open>xs.forEach(function (element, index) { ... })\<close>: the callback runs on every element in
  order; an exception thrown by it leaves the loop.
\<close>

fun forEachFrom :: "nat \<Rightarrow> (jsval \<Rightarrow> nat \<Rightarrow> exn + unit) \<Rightarrow> jsval list \<Rightarrow> exn + unit" where
  "forEachFrom i f [] = Inr ()"
| "forEachFrom i f (x # xs) =
     (case f x i of Inl e \<Rightarrow> Inl e | Inr u \<Rightarrow> forEachFrom (Suc i) f xs)"

definition forEach :: "(jsval \<Rightarrow> nat \<Rightarrow> exn + unit) \<Rightarrow> jsval list \<Rightarrow> exn + unit" where
  "forEach f xs = forEachFrom 0 f xs"

section \<open>The validator\<close>

definition defaultName :: string where
  "defaultName = ''configObject''"

definition nonRequiredName :: string where
  "nonRequiredName = ''optional''"

definition nullableName :: string where
  "nullableName = ''nullable''"

definition throwConfigError :: "string \<Rightarrow> exn + 'a" where
  "throwConfigError message = Inl (BackendError message ''INVALID_CONFIG'' 500)"

definition throwPatternError :: "string \<Rightarrow> exn + 'a" where
  "throwPatternError message = Inl (BackendError message ''INVALID_INPUT_PATTERN'' 400)"

subsection \<open>Type checkers\<close>

definition createSimpleTypeChecker :: "string \<Rightarrow> jsval \<Rightarrow> string \<Rightarrow> exn + unit" where
  "createSimpleTypeChecker type val name =
     (if typeOf val \<noteq> type
      then throwPatternError (name @ '' should have '' @ type @ '' type!'')
      else Inr ())"

definition checkArray :: "jsval \<Rightarrow> string \<Rightarrow> exn + unit" where
  "checkArray val name =
     (case val of
        Arr r xs \<Rightarrow> Inr ()
      | _ \<Rightarrow> throwPatternError (name @ '' has to be an array!''))"

text \<open>\<open>koInstance\<close>, the module's variable, is the parameter \<open>ko\<close>; it starts \<open>undefined\<close>.\<close>

definition checkObservable :: "host \<Rightarrow> jsval \<Rightarrow> jsval \<Rightarrow> string \<Rightarrow> exn + unit" where
  "checkObservable h ko val name =
     (if \<not> truthy ko
      then throwConfigError ''Observable checking is not possible because no knockout instance is given!''
      else (case getProp h ko ''isObservable'' of
              Inl e \<Rightarrow> Inl e
            | Inr f \<Rightarrow>
                (case callValue h f [val] of
                   Inl e \<Rightarrow> Inl e
                 | Inr answer \<Rightarrow>
                     if \<not> truthy answer
                     then throwPatternError (name @ '' has to be an observable!'')
                     else Inr ())))"

definition checkDate :: "jsval \<Rightarrow> string \<Rightarrow> exn + unit" where
  "checkDate val name =
     (case val of
        DateObj r \<Rightarrow> Inr ()
      | _ \<Rightarrow> throwPatternError (name @ '' has to be a date object!''))"

text \<open>The own properties of the \<open>typeCheckers\<close> object literal.\<close>

definition typeCheckers :: "string \<Rightarrow> (host \<Rightarrow> jsval \<Rightarrow> jsval \<Rightarrow> string \<Rightarrow> exn + unit) option" where
  "typeCheckers key =
     (if key = ''array'' then Some (\<lambda>h ko. checkArray)
      else if key = ''boolean'' then Some (\<lambda>h ko. createSimpleTypeChecker ''boolean'')
      else if key = ''date'' then Some (\<lambda>h ko. checkDate)
      else if key = ''function'' then Some (\<lambda>h ko. createSimpleTypeChecker ''function'')
      else if key = ''number'' then Some (\<lambda>h ko. createSimpleTypeChecker ''number'')
      else if key = ''object'' then Some (\<lambda>h ko. createSimpleTypeChecker ''object'')
      else if key = ''observable'' then Some checkObservable
      else if key = ''string'' then Some (\<lambda>h ko. createSimpleTypeChecker ''string'')
      else None)"

text \<open>
  \<open>checkType(value, type, name)\<close>.  \<open>typeCheckers[type]\<close> converts \<open>type\<close> to a key and
  finds an own property or else a member of \<open>Object.prototype\<close>; a falsy result is an
  unknown type, anything else is called with \<open>(value, name)\<close>.
\<close>

definition unknownType :: "host \<Rightarrow> jsval \<Rightarrow> exn + unit" where
  "unknownType h type =
     (case concatString h type of
        Inl e \<Rightarrow> Inl e
      | Inr s \<Rightarrow> throwConfigError (''Unknown type: '' @ s))"

definition checkType :: "host \<Rightarrow> jsval \<Rightarrow> jsval \<Rightarrow> jsval \<Rightarrow> string \<Rightarrow> exn + unit" where
  "checkType h ko val type name =
     (case toPropertyKey h type of
        Inl e \<Rightarrow> Inl e
      | Inr key \<Rightarrow>
          (case typeCheckers key of
             Some checker \<Rightarrow> checker h ko val name
           | None \<Rightarrow>
               (case prototype h ObjectPrototype key of
                  None \<Rightarrow> unknownType h type
                | Some member \<Rightarrow>
                    if \<not> truthy member then unknownType h type
                    else (case callValue h member [val, Str name] of
                            Inl e \<Rightarrow> Inl e
                          | Inr r \<Rightarrow> Inr ()))))"

subsection \<open>String patterns\<close>

definition currentTypeOf :: "string \<Rightarrow> string" where
  "currentTypeOf pattern = hd (js_split CHR '' '' pattern)"

definition remainingPatternOf :: "string \<Rightarrow> string" where
  "remainingPatternOf pattern = js_join '' '' (tl (js_split CHR '' '' pattern))"

lemma js_split_not_Nil: "js_split c s \<noteq> []"
  by (induction s) (auto split: list.splits)

lemma js_join_js_split: "js_join [c] (js_split c s) = s"
proof (induction s)
  case Nil
  show ?case by simp
next
  case (Cons x xs)
  obtain w ws where ws: "js_split c xs = w # ws"
    using js_split_not_Nil [of c xs] by (cases "js_split c xs") auto
  show ?case
  proof (cases "x = c")
    case True
    with Cons.IH ws show ?thesis by simp
  next
    case False
    with Cons.IH ws show ?thesis by (cases ws) auto
  qed
qed

text \<open>The pattern is its first token, followed, if there is a space, by the space and the rest.\<close>

lemma pattern_decompose:
  "pattern = currentTypeOf pattern @
     (if tl (js_split CHR '' '' pattern) = [] then [] else '' '' @ remainingPatternOf pattern)"
proof -
  obtain w ws where ws: "js_split CHR '' '' pattern = w # ws"
    using js_split_not_Nil [of "CHR '' ''" pattern] by (cases "js_split CHR '' '' pattern") auto
  have "js_join '' '' (w # ws) = pattern"
    using js_join_js_split [of "CHR '' ''" pattern] ws by simp
  then show ?thesis
    using ws by (cases ws) (auto simp: currentTypeOf_def remainingPatternOf_def)
qed

lemma length_pattern_decompose:
  "length pattern = length (currentTypeOf pattern) +
     (if tl (js_split CHR '' '' pattern) = [] then 0 else 1 + length (remainingPatternOf pattern))"
proof -
  have "length pattern = length (currentTypeOf pattern @
     (if tl (js_split CHR '' '' pattern) = [] then [] else '' '' @ remainingPatternOf pattern))"
    using pattern_decompose [of pattern] by simp
  then show ?thesis by (simp split: if_splits)
qed

lemma remaining_empty: "tl (js_split CHR '' '' pattern) = [] \<Longrightarrow> remainingPatternOf pattern = []"
  by (simp add: remainingPatternOf_def)

lemma remaining_shorter_token:
  "currentTypeOf p \<noteq> [] \<Longrightarrow> length (remainingPatternOf p) < length p"
  using length_pattern_decompose [of p] remaining_empty [of p]
  by (cases "tl (js_split CHR '' '' p) = []") auto

lemma remaining_shorter_rest:
  "remainingPatternOf p \<noteq> [] \<Longrightarrow> length (remainingPatternOf p) < length p"
  using length_pattern_decompose [of p] remaining_empty [of p]
  by (cases "tl (js_split CHR '' '' p) = []") auto

function checkStringPattern :: "host \<Rightarrow> jsval \<Rightarrow> jsval \<Rightarrow> string \<Rightarrow> string \<Rightarrow> exn + unit" where
  "checkStringPattern h ko item pattern name =
     (if currentTypeOf pattern = nonRequiredName then
        (if item = Undefined then Inr ()
         else checkStringPattern h ko item (remainingPatternOf pattern) name)
      else if currentTypeOf pattern = nullableName then
        (if item = Null then Inr ()
         else checkStringPattern h ko item (remainingPatternOf pattern) name)
      else if item = Undefined then throwPatternError (name @ '' is mandatory!'')
      else if item = Null then throwPatternError (name @ '' shouldn't be null!'')
      else
        (case checkType h ko item (Str (currentTypeOf pattern)) name of
           Inl e \<Rightarrow> Inl e
         | Inr u \<Rightarrow>
             if remainingPatternOf pattern \<noteq> [] then
               (if currentTypeOf pattern = ''array'' then
                  (case item of
                     Arr r xs \<Rightarrow>
                       forEach (\<lambda>element index.
                         checkStringPattern h ko element (remainingPatternOf pattern)
                           (name @ ''['' @ showNat index @ '']'')) xs
                   | _ \<Rightarrow> Inl TypeError)
                else if currentTypeOf pattern = ''observable'' then
                  (case callValue h item [] of
                     Inl e \<Rightarrow> Inl e
                   | Inr contents \<Rightarrow>
                       checkStringPattern h ko contents (remainingPatternOf pattern) (name @ ''()''))
                else throwConfigError (''Invalid pattern: '' @ pattern))
             else Inr ()))"
  by pat_completeness auto

termination
proof (relation "measure (\<lambda>(h, ko, item, pattern, name). length pattern)")
  show "wf (measure (\<lambda>(h, ko, item, pattern, name). length pattern))" by simp
qed (auto simp: nonRequiredName_def nullableName_def
       intro: remaining_shorter_token remaining_shorter_rest)

declare checkStringPattern.simps [simp del]

subsection \<open>Object patterns\<close>

text \<open>
  \<open>name || defaultName\<close> and \<open>type || "object"\<close>.  A name is a string; a call that
  leaves the name out is a call with the empty name, which is falsy like \<open>undefined\<close>.
\<close>

definition nameOrDefault :: "string \<Rightarrow> string" where
  "nameOrDefault name = (if name \<noteq> [] then name else defaultName)"

definition typeOrDefault :: "jsval \<Rightarrow> jsval" where
  "typeOrDefault type = (if truthy type then type else Str ''object'')"

text \<open>The loop of \<open>checkAllowedValues\<close> over \<open>values[i]\<close>.\<close>

fun checkAllowedValues :: "jsval \<Rightarrow> jsval list \<Rightarrow> string \<Rightarrow> exn + unit" where
  "checkAllowedValues item [] name =
     throwPatternError (''The value of '' @ name @ '' is not among the allowed ones!'')"
| "checkAllowedValues item (v # vs) name =
     (if strictEq item v then Inr () else checkAllowedValues item vs name)"

text \<open>
  The \<open>keys.forEach\<close> of \<open>checkShorthandPattern\<close>, which updates \<open>current\<close> and
  \<open>name\<close> at every key; it returns both.
\<close>

fun walkKeys :: "host \<Rightarrow> jsval \<Rightarrow> string \<Rightarrow> string list \<Rightarrow> exn + (jsval \<times> string)" where
  "walkKeys h current name [] = Inr (current, name)"
| "walkKeys h current name (key # keys) =
     (if typeOf current \<noteq> ''object''
      then throwPatternError (name @ '' should have object type!'')
      else (case getProp h current key of
              Inl e \<Rightarrow> Inl e
            | Inr next \<Rightarrow> walkKeys h next (name @ ''.'' @ key) keys))"

text \<open>
  Every recursive call of the checker is on a pattern read out of the pattern at hand, so
  the checker terminates on the finite patterns of this model.
\<close>

fun weight :: "jsval \<Rightarrow> nat" where
  "weight Undefined = 0"
| "weight v = Suc (size v)"

lemma size_map_of:
  "map_of ps k = Some v \<Longrightarrow> size v < Suc (size_list (size_prod (\<lambda>x. 0) size) ps)"
  by (induction ps) (auto split: if_splits)

lemma size_in_set: "v \<in> set xs \<Longrightarrow> size v < Suc (size_list size xs)"
  by (induction xs) auto

lemma weight_le: "weight v \<le> Suc (size v)"
  by (cases v) auto

lemma weight_getOwn: "getOwn p k = Inr v \<Longrightarrow> weight v < weight p"
proof (cases p)
  case (Obj r ps)
  assume "getOwn p k = Inr v"
  with Obj show ?thesis
    using weight_le [of v] by (auto split: option.splits dest!: size_map_of)
next
  case (Arr r xs)
  assume g: "getOwn p k = Inr v"
  show ?thesis
  proof (cases "map_of (zip (map showNat [0..<length xs]) xs) k")
    case None
    with g Arr show ?thesis by (auto simp: map_add_def split: option.splits if_splits)
  next
    case (Some x)
    then have "x \<in> set xs" by (auto dest!: map_of_SomeD set_zip_rightD)
    then have "size x < Suc (size_list size xs)" by (rule size_in_set)
    moreover have "v = x" using g Arr Some by (simp add: map_add_def)
    ultimately show ?thesis using Arr weight_le [of v] by simp
  qed
qed auto

text \<open>
  \<open>checkPattern\<close> (exported as \<open>check\<close>), \<open>checkObjectPattern\<close> and
  \<open>checkShorthandPattern\<close>; \<open>checkProps\<close> is the \<open>for (var prop in pattern)\<close> loop of
  \<open>checkObjectPattern\<close>, run on the keys still to visit.
\<close>

function checkPattern :: "host \<Rightarrow> jsval \<Rightarrow> jsval \<Rightarrow> jsval \<Rightarrow> string \<Rightarrow> exn + unit"
  and checkObjectPattern :: "host \<Rightarrow> jsval \<Rightarrow> jsval \<Rightarrow> jsval \<Rightarrow> string \<Rightarrow> exn + unit"
  and checkProps :: "host \<Rightarrow> jsval \<Rightarrow> jsval \<Rightarrow> jsval \<Rightarrow> string list \<Rightarrow> string \<Rightarrow> exn + unit"
  and checkShorthandPattern :: "host \<Rightarrow> jsval \<Rightarrow> jsval \<Rightarrow> string \<Rightarrow> jsval \<Rightarrow> string \<Rightarrow> exn + unit"
where
  "checkPattern h ko item pattern name =
     (if typeOf pattern = ''object'' then
        checkObjectPattern h ko item pattern (nameOrDefault name)
      else
        (case pattern of
           Str p \<Rightarrow> checkStringPattern h ko item p (nameOrDefault name)
         | _ \<Rightarrow>
             (case concatString h pattern of
                Inl e \<Rightarrow> Inl e
              | Inr s \<Rightarrow> throwConfigError (''Invalid pattern: '' @ s))))"
| "checkObjectPattern h ko item pattern name =
     (if item = Undefined then
        (case getOwn pattern ''__required'' of
           Inl e \<Rightarrow> Inl e
         | Inr required \<Rightarrow>
             if \<not> strictEq required (Bool False)
             then throwPatternError (name @ '' is mandatory!'')
             else Inr ())
      else if item = Null then
        (case getOwn pattern ''__nullable'' of
           Inl e \<Rightarrow> Inl e
         | Inr nullable \<Rightarrow>
             if \<not> strictEq nullable (Bool True)
             then throwPatternError (name @ '' shouldn't be null!'')
             else Inr ())
      else
        (case getOwn pattern ''__allowedValues'' of
           Inl e \<Rightarrow> Inl e
         | Inr allowedValues \<Rightarrow>
             if truthy allowedValues then
               (case allowedValues of
                  Arr r vs \<Rightarrow> checkAllowedValues item vs name
                | _ \<Rightarrow> throwConfigError
                    ''Invalid pattern: the __allowedValues property always has to be an array!'')
             else
               (case getOwn pattern ''__type'' of
                  Inl e \<Rightarrow> Inl e
                | Inr type \<Rightarrow>
                    (case checkType h ko item (typeOrDefault type) name of
                       Inl e \<Rightarrow> Inl e
                     | Inr u \<Rightarrow>
                         if typeOrDefault type = Str ''array'' then
                           (case getOwn pattern ''__elements'' of
                              Inl e \<Rightarrow> Inl e
                            | Inr elements \<Rightarrow>
                                if elements \<noteq> Undefined then
                                  (case item of
                                     Arr r xs \<Rightarrow>
                                       forEach (\<lambda>element index.
                                         checkPattern h ko element elements
                                           (name @ ''['' @ showNat index @ '']'')) xs
                                   | _ \<Rightarrow> Inl TypeError)
                                else Inr ())
                         else if typeOrDefault type = Str ''object'' then
                           checkProps h ko item pattern (map fst (enumerableProps pattern)) name
                         else if typeOrDefault type = Str ''observable'' then
                           (case getOwn pattern ''__value'' of
                              Inl e \<Rightarrow> Inl e
                            | Inr inner \<Rightarrow>
                                if truthy inner then
                                  (case callValue h item [] of
                                     Inl e \<Rightarrow> Inl e
                                   | Inr contents \<Rightarrow>
                                       checkPattern h ko contents inner (name @ ''()''))
                                else Inr ())
                         else Inr ()))))"
| "checkProps h ko item pattern [] name = Inr ()"
| "checkProps h ko item pattern (prop # props) name =
     (if prop = ''__type'' \<or> prop = ''__required'' \<or> prop = ''__nullable'' then
        checkProps h ko item pattern props name
      else
        (case getOwn pattern prop of
           Inl e \<Rightarrow> Inl e
         | Inr sub \<Rightarrow>
             (case checkShorthandPattern h ko item prop sub name of
                Inl e \<Rightarrow> Inl e
              | Inr u \<Rightarrow> checkProps h ko item pattern props name)))"
| "checkShorthandPattern h ko item prop pattern name =
     (case walkKeys h item name (js_split CHR ''.'' prop) of
        Inl e \<Rightarrow> Inl e
      | Inr (current, path) \<Rightarrow> checkPattern h ko current pattern path)"
  by pat_completeness auto

termination
proof (relation "measures
    [case_sum
       (case_sum (\<lambda>(h, ko, item, pattern, name). weight pattern)
                 (\<lambda>(h, ko, item, pattern, name). weight pattern))
       (case_sum (\<lambda>(h, ko, item, pattern, props, name). weight pattern)
                 (\<lambda>(h, ko, item, prop, pattern, name). weight pattern)),
     case_sum
       (case_sum (\<lambda>(h, ko, item, pattern, name). 2)
                 (\<lambda>(h, ko, item, pattern, name). 1))
       (case_sum (\<lambda>(h, ko, item, pattern, props, name). 0)
                 (\<lambda>(h, ko, item, prop, pattern, name). 3)),
     case_sum
       (case_sum (\<lambda>(h, ko, item, pattern, name). 0)
                 (\<lambda>(h, ko, item, pattern, name). 0))
       (case_sum (\<lambda>(h, ko, item, pattern, props, name). length props)
                 (\<lambda>(h, ko, item, prop, pattern, name). 0))]")
qed (auto dest: weight_getOwn)

declare checkPattern.simps [simp del]
declare checkObjectPattern.simps [simp del]
declare checkShorthandPattern.simps [simp del]

subsection \<open>The integration hook\<close>

text \<open>
  \<open>extendSuperSchema(config)\<close> (exported as \<open>extend\<close>) returns its outcome and the new
  content of \<open>koInstance\<close>.
\<close>

definition extendSuperSchema :: "host \<Rightarrow> jsval \<Rightarrow> jsval \<Rightarrow> (exn + unit) \<times> jsval" where
  "extendSuperSchema h config ko =
     (if typeOf config \<noteq> ''object'' then
        (throwConfigError (CHR 0x27 # ''config'' @ CHR 0x27 # '' has to be an object!''), ko)
      else
        (case getProp h config ''knockout'' of
           Inl e \<Rightarrow> (Inl e, ko)
         | Inr first \<Rightarrow>
             (case (if truthy first then Inr first else getProp h config ''ko'') of
                Inl e \<Rightarrow> (Inl e, ko)
              | Inr lib \<Rightarrow>
                  if \<not> truthy lib then
                    (throwConfigError ''superschema.extend called without any known parameters!'', ko)
                  else if typeOf lib \<noteq> ''object'' then
                    (throwConfigError ''Invalid 'knockout' parameter given!'', ko)
                  else
                    (case getProp h lib ''isObservable'' of
                       Inl e \<Rightarrow> (Inl e, ko)
                     | Inr f \<Rightarrow>
                         if typeOf f \<noteq> ''function'' then
                           (throwConfigError ''Invalid 'knockout' parameter given!'', ko)
                         else (Inr (), lib)))))"

subsection \<open>Environments for concrete runs\<close>

text \<open>
  \<open>plainHost\<close> has no built-in members and no callable behaviour of interest.  In
  \<open>koHost\<close> function 1 is a library's \<open>isObservable\<close>, which recognises function 2, and
  function 2 is an observable whose current content is the number 7.
\<close>

definition plainHost :: host where
  "plainHost =
     \<lparr>invoke = (\<lambda>r args. Inr Undefined),
      prototype = (\<lambda>p k. None),
      objectToKey = (\<lambda>v. Inr ''[object Object]''),
      objectToText = (\<lambda>v. Inr ''[object Object]'')\<rparr>"

definition koHost :: host where
  "koHost =
     \<lparr>invoke = (\<lambda>r args.
        if r = 1 then (case args of [Func f] \<Rightarrow> Inr (Bool (f = 2)) | _ \<Rightarrow> Inr (Bool False))
        else if r = 2 then Inr (Num (Fin 7))
        else Inr Undefined),
      prototype = (\<lambda>p k. None),
      objectToKey = (\<lambda>v. Inr ''[object Object]''),
      objectToText = (\<lambda>v. Inr ''[object Object]'')\<rparr>"

definition koLibrary :: jsval where
  "koLibrary = Obj 10 [(''isObservable'', Func 1)]"

section \<open>Notions used in the statements\<close>

text \<open>
  The type token a string pattern resolves to: its first token that is not a modifier.
\<close>

function resolvedTypeOf :: "string \<Rightarrow> string" where
  "resolvedTypeOf pattern =
     (if currentTypeOf pattern = nonRequiredName \<or> currentTypeOf pattern = nullableName
      then resolvedTypeOf (remainingPatternOf pattern)
      else currentTypeOf pattern)"
  by pat_completeness auto

termination
  by (relation "measure length")
     (auto simp: nonRequiredName_def nullableName_def intro: remaining_shorter_token)

declare resolvedTypeOf.simps [simp del]

text \<open>
  \<open>typeCheckers[key]\<close> is truthy: the key is registered, or \<open>Object.prototype\<close> has a
  truthy member of that name.
\<close>

definition knownType :: "host \<Rightarrow> string \<Rightarrow> bool" where
  "knownType h key =
     (case typeCheckers key of
        Some checker \<Rightarrow> True
      | None \<Rightarrow> (case prototype h ObjectPrototype key of
                   None \<Rightarrow> False
                 | Some member \<Rightarrow> truthy member))"

text \<open>The outcome of running checks in order and stopping at the first that raises.\<close>

fun firstError :: "(exn + unit) list \<Rightarrow> exn + unit" where
  "firstError [] = Inr ()"
| "firstError (r # rs) = (case r of Inl e \<Rightarrow> Inl e | Inr u \<Rightarrow> firstError rs)"

text \<open>The keys of a pattern that the \<open>object\<close> branch treats as field paths.\<close>

definition fieldKeys :: "jsval \<Rightarrow> string list" where
  "fieldKeys pattern =
     filter (\<lambda>k. k \<noteq> ''__type'' \<and> k \<noteq> ''__required'' \<and> k \<noteq> ''__nullable'')
       (map fst (enumerableProps pattern))"

fun elementsOf :: "jsval \<Rightarrow> jsval list" where
  "elementsOf (Arr r xs) = xs"
| "elementsOf v = []"

text \<open>
  Walking a dotted key: the container reached after \<open>n\<close> segments and the display path
  built on the way.  A container is a value of \<open>typeof\<close> \<open>"object"\<close> other than \<open>null\<close>,
  the values whose properties can be read.
\<close>

definition propOf :: "host \<Rightarrow> jsval \<Rightarrow> string \<Rightarrow> jsval" where
  "propOf h v k = (case getProp h v k of Inl e \<Rightarrow> Undefined | Inr x \<Rightarrow> x)"

definition containerAt :: "host \<Rightarrow> jsval \<Rightarrow> string list \<Rightarrow> nat \<Rightarrow> jsval" where
  "containerAt h item keys n = foldl (propOf h) item (take n keys)"

definition pathAt :: "string \<Rightarrow> string list \<Rightarrow> nat \<Rightarrow> string" where
  "pathAt name keys n = foldl (\<lambda>path key. path @ ''.'' @ key) name (take n keys)"

definition isContainer :: "jsval \<Rightarrow> bool" where
  "isContainer v = (typeOf v = ''object'' \<and> v \<noteq> Null)"

section \<open>Properties\<close>

subsection \<open>A \<open>null\<close> pattern\<close>

text \<open>
  C1.  The specification says that \<open>check(v, p, name)\<close> returns or raises one of the two
  structured errors, and nothing else.  \<open>checkPattern\<close> sends every pattern whose
  \<open>typeof\<close> is \<open>"object"\<close> to \<open>checkObjectPattern\<close>, and \<open>typeof null\<close> is
  \<open>"object"\<close>: for the pattern \<open>null\<close> the first property read, whichever it is, throws
  the engine's \<open>TypeError\<close>, for every value, name and environment.  The branch
  \<open>throwConfigError("Invalid pattern: " + pattern)\<close> that rejects every other
  non-pattern is never reached.
\<close>

theorem check_null_pattern_type_error:
  "checkPattern h ko item Null name = Inl TypeError
   \<and> checkPattern h ko item Null name \<noteq> Inr ()
   \<and> (\<forall>message code status.
         checkPattern h ko item Null name \<noteq> Inl (BackendError message code status))"
  by (simp add: checkPattern.simps checkObjectPattern.simps)

subsection \<open>Unknown type names\<close>

lemma checkType_unknown:
  assumes "\<not> knownType h X"
  shows "checkType h ko item (Str X) name = throwConfigError (''Unknown type: '' @ X)"
  using assms
  by (simp add: knownType_def checkType_def unknownType_def split: option.splits)

lemma checkStringPattern_unknown:
  assumes "item \<noteq> Undefined" and "item \<noteq> Null" and "\<not> knownType h (resolvedTypeOf p)"
  shows "checkStringPattern h ko item p name
           = throwConfigError (''Unknown type: '' @ resolvedTypeOf p)"
  using assms(3)
proof (induction p rule: resolvedTypeOf.induct)
  case (1 pattern)
  show ?case
  proof (cases "currentTypeOf pattern = nonRequiredName \<or> currentTypeOf pattern = nullableName")
    case True
    then have r: "resolvedTypeOf pattern = resolvedTypeOf (remainingPatternOf pattern)"
      by (subst resolvedTypeOf.simps) simp
    with "1.IH" [OF True] "1.prems"
    have "checkStringPattern h ko item (remainingPatternOf pattern) name
            = throwConfigError (''Unknown type: '' @ resolvedTypeOf pattern)"
      by simp
    with True assms(1,2) show ?thesis
      by (subst checkStringPattern.simps) auto
  next
    case False
    then have r: "resolvedTypeOf pattern = currentTypeOf pattern"
      by (subst resolvedTypeOf.simps) simp
    with "1.prems" have "\<not> knownType h (currentTypeOf pattern)" by simp
    then have "checkType h ko item (Str (currentTypeOf pattern)) name
        = throwConfigError (''Unknown type: '' @ currentTypeOf pattern)"
      by (rule checkType_unknown)
    with False assms(1,2) r show ?thesis
      by (subst checkStringPattern.simps) (simp add: throwConfigError_def)
  qed
qed

text \<open>
  C2, as the specification has it: an unregistered type name raises the configuration
  error "Unknown type: X" whatever the value, \<open>undefined\<close> and \<open>null\<close> included.  Both
  engines test the value for \<open>undefined\<close> and \<open>null\<close> before they call \<open>checkType\<close>, so
  for these two values the type name is never looked up and the pattern error is raised.
\<close>

theorem unknown_type_undefined_value:
  "\<not> knownType plainHost ''foo''
   \<and> resolvedTypeOf ''foo'' = ''foo''
   \<and> checkPattern plainHost Undefined Undefined (Str ''foo'') ''''
       = Inl (BackendError ''configObject is mandatory!'' ''INVALID_INPUT_PATTERN'' 400)
   \<and> checkPattern plainHost Undefined Null (Obj 1 [(''__type'', Str ''foo'')]) ''''
       = Inl (BackendError ''configObject shouldn't be null!'' ''INVALID_INPUT_PATTERN'' 400)"
  by code_simp

text \<open>
  C2, amended.  For every value other than \<open>undefined\<close> and \<open>null\<close> and every type name
  \<open>X\<close> under which \<open>typeCheckers[X]\<close> finds nothing: a string pattern that resolves to
  \<open>X\<close>, and an object pattern without truthy \<open>__allowedValues\<close> whose \<open>__type\<close> is
  \<open>X\<close>, raise the configuration error "Unknown type: X".
\<close>

theorem unknown_type_is_config_error:
  assumes "item \<noteq> Undefined" and "item \<noteq> Null" and "\<not> knownType h X"
  shows "(resolvedTypeOf p = X \<longrightarrow>
            checkPattern h ko item (Str p) name = throwConfigError (''Unknown type: '' @ X))
       \<and> (typeOf pattern = ''object''
            \<and> getOwn pattern ''__allowedValues'' = Inr allowedValues \<and> \<not> truthy allowedValues
            \<and> getOwn pattern ''__type'' = Inr type \<and> typeOrDefault type = Str X \<longrightarrow>
            checkPattern h ko item pattern name = throwConfigError (''Unknown type: '' @ X))"
proof (intro conjI impI)
  assume "resolvedTypeOf p = X"
  with assms show "checkPattern h ko item (Str p) name = throwConfigError (''Unknown type: '' @ X)"
    using checkStringPattern_unknown [of item h p ko "nameOrDefault name"]
    by (simp add: checkPattern.simps)
next
  assume a: "typeOf pattern = ''object''
            \<and> getOwn pattern ''__allowedValues'' = Inr allowedValues \<and> \<not> truthy allowedValues
            \<and> getOwn pattern ''__type'' = Inr type \<and> typeOrDefault type = Str X"
  have "checkType h ko item (Str X) (nameOrDefault name)
      = throwConfigError (''Unknown type: '' @ X)"
    using assms(3) by (rule checkType_unknown)
  with a assms(1,2)
  show "checkPattern h ko item pattern name = throwConfigError (''Unknown type: '' @ X)"
    by (simp add: checkPattern.simps checkObjectPattern.simps throwConfigError_def)
qed

theorem unknown_type_is_config_error_witness:
  "Num (Fin 5) \<noteq> Undefined \<and> Num (Fin 5) \<noteq> Null \<and> \<not> knownType plainHost ''foo''
   \<and> resolvedTypeOf ''optional nullable foo'' = ''foo''
   \<and> checkPattern plainHost Undefined (Num (Fin 5)) (Str ''optional nullable foo'') ''''
       = throwConfigError ''Unknown type: foo''
   \<and> checkPattern plainHost Undefined (Num (Fin 5)) (Obj 1 [(''__type'', Str ''foo'')]) ''''
       = throwConfigError ''Unknown type: foo''"
proof -
  have a: "\<not> knownType plainHost ''foo''" by code_simp
  have b: "resolvedTypeOf ''optional nullable foo'' = ''foo''" by code_simp
  from unknown_type_is_config_error [of "Num (Fin 5)" plainHost "''foo''"
      "''optional nullable foo''" Undefined "''''" "Obj 1 [(''__type'', Str ''foo'')]"
      Undefined "Str ''foo''"] a b
  show ?thesis by (simp add: typeOrDefault_def)
qed

subsection \<open>Allowed values\<close>

lemma checkAllowedValues_iff:
  "checkAllowedValues item vs name =
     (if \<exists>v \<in> set vs. strictEq item v then Inr ()
      else throwPatternError (''The value of '' @ name @ '' is not among the allowed ones!''))"
  by (induction vs) auto

text \<open>
  C3, as the specification has it: whenever the key \<open>__allowedValues\<close> is present, a value
  that is not an array is a configuration error, and every other check is skipped.  The
  code tests \<open>if (allowedValues)\<close>, the truthiness of the value and not the presence of
  the key.  In the pattern \<open>{__type: "string", __allowedValues: null}\<close> the key is
  present and its value is not an array, yet for the value \<open>"x"\<close> no configuration error
  is raised: the \<open>__type\<close> check runs, which the specification says is skipped, and the
  call returns normally.
\<close>

theorem falsy_allowed_values_ignored:
  "getOwn (Obj 3 [(''__type'', Str ''string''), (''__allowedValues'', Null)]) ''__allowedValues''
     = Inr Null
   \<and> checkPattern plainHost Undefined (Str ''x'')
       (Obj 3 [(''__type'', Str ''string''), (''__allowedValues'', Null)]) '''' = Inr ()"
  by code_simp

text \<open>
  C3, amended.  For a value that is neither \<open>undefined\<close> nor \<open>null\<close> and an object
  pattern whose \<open>__allowedValues\<close> is truthy: if \<open>__allowedValues\<close> is not an array,
  \<open>check\<close> raises the configuration error; otherwise it passes if and only if the value is
  \<open>===\<close> to an element of the array, and raises
  "The value of <name> is not among the allowed ones!" if not.  The outcome depends on
  nothing else in the pattern: neither \<open>__type\<close> nor any field is looked at.  The
  statement is about a truthy \<open>__allowedValues\<close> only.
\<close>

theorem allowed_values_short_circuit:
  assumes "typeOf pattern = ''object''"
    and "item \<noteq> Undefined" and "item \<noteq> Null"
    and "getOwn pattern ''__allowedValues'' = Inr allowedValues"
    and "truthy allowedValues"
  shows "checkPattern h ko item pattern name =
     (case allowedValues of
        Arr r vs \<Rightarrow>
          if \<exists>v \<in> set vs. strictEq item v then Inr ()
          else throwPatternError
            (''The value of '' @ nameOrDefault name @ '' is not among the allowed ones!'')
      | _ \<Rightarrow> throwConfigError
          ''Invalid pattern: the __allowedValues property always has to be an array!'')"
  using assms
  by (cases allowedValues)
     (simp_all add: checkPattern.simps checkObjectPattern.simps checkAllowedValues_iff)

theorem allowed_values_short_circuit_witness:
  "checkPattern plainHost Undefined (Num (Fin 2))
     (Obj 3 [(''__type'', Str ''string''),
             (''__allowedValues'', Arr 4 [Num (Fin 1), Num (Fin 2), Num (Fin 3)])]) '''' = Inr ()
   \<and> checkPattern plainHost Undefined (Num (Fin 5))
     (Obj 3 [(''__allowedValues'', Arr 4 [Num (Fin 1), Num (Fin 2), Num (Fin 3)])]) ''''
     = throwPatternError ''The value of configObject is not among the allowed ones!''
   \<and> checkPattern plainHost Undefined (Num (Fin 5))
     (Obj 3 [(''__allowedValues'', Num (Fin 1))]) ''''
     = throwConfigError ''Invalid pattern: the __allowedValues property always has to be an array!''"
  using allowed_values_short_circuit [of
      "Obj 3 [(''__type'', Str ''string''),
              (''__allowedValues'', Arr 4 [Num (Fin 1), Num (Fin 2), Num (Fin 3)])]"
      "Num (Fin 2)" "Arr 4 [Num (Fin 1), Num (Fin 2), Num (Fin 3)]" plainHost Undefined "''''"]
    allowed_values_short_circuit [of
      "Obj 3 [(''__allowedValues'', Arr 4 [Num (Fin 1), Num (Fin 2), Num (Fin 3)])]"
      "Num (Fin 5)" "Arr 4 [Num (Fin 1), Num (Fin 2), Num (Fin 3)]" plainHost Undefined "''''"]
    allowed_values_short_circuit [of
      "Obj 3 [(''__allowedValues'', Num (Fin 1))]"
      "Num (Fin 5)" "Num (Fin 1)" plainHost Undefined "''''"]
  by (simp add: strictEq_def nameOrDefault_def defaultName_def)

subsection \<open>Field paths of an object pattern\<close>

lemma checkProps_firstError:
  "checkProps h ko item pattern props name =
     firstError (map (\<lambda>k. case getOwn pattern k of
                            Inl e \<Rightarrow> Inl e
                          | Inr sub \<Rightarrow> checkShorthandPattern h ko item k sub name)
       (filter (\<lambda>k. k \<noteq> ''__type'' \<and> k \<noteq> ''__required'' \<and> k \<noteq> ''__nullable'') props))"
  by (induction props) (auto split: sum.splits)

text \<open>
  C4, as the specification has it: none of the double-underscore keys is ever treated as
  a field path.  The loop skips \<open>__type\<close>, \<open>__required\<close> and \<open>__nullable\<close> only:
  under the pattern \<open>{__elements: "string"}\<close>, whose type is the default \<open>object\<close>, the key
  \<open>__elements\<close> is walked as a field of the value.
\<close>

theorem elements_key_is_a_field_path:
  "checkPattern plainHost Undefined (Obj 1 []) (Obj 2 [(''__elements'', Str ''string'')]) ''''
     = Inl (BackendError ''configObject.__elements is mandatory!'' ''INVALID_INPUT_PATTERN'' 400)"
  by code_simp

text \<open>
  C4, amended.  When the effective type of an object pattern is \<open>object\<close> (and the value
  is neither \<open>undefined\<close> nor \<open>null\<close>, \<open>__allowedValues\<close> is not truthy, and the value has
  \<open>typeof\<close> \<open>"object"\<close>), \<open>check\<close> treats every own enumerable key of the pattern except
  \<open>__type\<close>, \<open>__required\<close> and \<open>__nullable\<close> as a dotted field path, in enumeration
  order, and stops at the first that raises.  \<open>__elements\<close>, \<open>__value\<close> and a falsy
  \<open>__allowedValues\<close> are field paths like any other key.
\<close>

theorem object_pattern_field_keys:
  assumes "typeOf pattern = ''object''"
    and "item \<noteq> Undefined" and "item \<noteq> Null"
    and "getOwn pattern ''__allowedValues'' = Inr allowedValues" and "\<not> truthy allowedValues"
    and "getOwn pattern ''__type'' = Inr type" and "typeOrDefault type = Str ''object''"
  shows "checkPattern h ko item pattern name =
           (if typeOf item \<noteq> ''object''
            then throwPatternError (nameOrDefault name @ '' should have object type!'')
            else firstError
              (map (\<lambda>k. case getOwn pattern k of
                          Inl e \<Rightarrow> Inl e
                        | Inr sub \<Rightarrow> checkShorthandPattern h ko item k sub (nameOrDefault name))
                 (fieldKeys pattern)))
       \<and> fieldKeys (Obj r [(''__type'', t), (''__required'', q), (''__nullable'', n),
                            (''__elements'', e), (''__allowedValues'', a), (''__value'', v),
                            (''user.name'', u)])
           = [''__elements'', ''__allowedValues'', ''__value'', ''user.name'']"
proof
  have "checkType h ko item (Str ''object'') (nameOrDefault name) =
      (if typeOf item \<noteq> ''object''
       then throwPatternError (nameOrDefault name @ '' should have object type!'')
       else Inr ())"
    by (simp add: checkType_def typeCheckers_def createSimpleTypeChecker_def)
  with assms show "checkPattern h ko item pattern name =
           (if typeOf item \<noteq> ''object''
            then throwPatternError (nameOrDefault name @ '' should have object type!'')
            else firstError
              (map (\<lambda>k. case getOwn pattern k of
                          Inl e \<Rightarrow> Inl e
                        | Inr sub \<Rightarrow> checkShorthandPattern h ko item k sub (nameOrDefault name))
                 (fieldKeys pattern)))"
    by (simp add: checkPattern.simps checkObjectPattern.simps checkProps_firstError
        fieldKeys_def throwPatternError_def)
next
  show "fieldKeys (Obj r [(''__type'', t), (''__required'', q), (''__nullable'', n),
                            (''__elements'', e), (''__allowedValues'', a), (''__value'', v),
                            (''user.name'', u)])
           = [''__elements'', ''__allowedValues'', ''__value'', ''user.name'']"
    by (simp add: fieldKeys_def)
qed

theorem object_pattern_field_keys_witness:
  "checkPattern plainHost Undefined (Obj 1 [(''a'', Num (Fin 1))])
     (Obj 2 [(''__type'', Str ''object''), (''a'', Str ''number''), (''__value'', Str ''number'')]) ''''
   = throwPatternError ''configObject.__value is mandatory!''"
proof -
  have a: "fieldKeys (Obj 2 [(''__type'', Str ''object''), (''a'', Str ''number''),
      (''__value'', Str ''number'')]) = [''a'', ''__value'']"
    by (simp add: fieldKeys_def)
  have b: "checkShorthandPattern plainHost Undefined (Obj 1 [(''a'', Num (Fin 1))]) ''a''
      (Str ''number'') ''configObject'' = Inr ()"
    by code_simp
  have c: "checkShorthandPattern plainHost Undefined (Obj 1 [(''a'', Num (Fin 1))]) ''__value''
      (Str ''number'') ''configObject'' = throwPatternError ''configObject.__value is mandatory!''"
    by code_simp
  from object_pattern_field_keys [of
      "Obj 2 [(''__type'', Str ''object''), (''a'', Str ''number''), (''__value'', Str ''number'')]"
      "Obj 1 [(''a'', Num (Fin 1))]" Undefined "Str ''object''" plainHost Undefined "''''"] a b c
  show ?thesis
    by (simp add: typeOrDefault_def nameOrDefault_def defaultName_def throwPatternError_def)
qed

subsection \<open>The \<open>object\<close> type checker\<close>

text \<open>
  C5, as the specification has it: a function value passes the \<open>object\<close> check.  The
  checker compares \<open>typeof value\<close> with \<open>"object"\<close>, and \<open>typeof\<close> of a function is
  \<open>"function"\<close>.
\<close>

theorem function_fails_object_check:
  "checkPattern plainHost Undefined (Func 1) (Str ''object'') ''f''
     = Inl (BackendError ''f should have object type!'' ''INVALID_INPUT_PATTERN'' 400)"
  by code_simp

text \<open>
  C5, amended.  The registered \<open>object\<close> checker is the raw \<open>typeof\<close> test: every array
  passes it, and every function value fails it with the pattern error
  "<name> should have object type!".
\<close>

theorem object_checker_typeof:
  "checkType h ko (Arr r xs) (Str ''object'') name = Inr ()
   \<and> checkType h ko (Func f) (Str ''object'') name
       = throwPatternError (name @ '' should have object type!'')"
  by (simp add: checkType_def typeCheckers_def createSimpleTypeChecker_def)

subsection \<open>Sub-patterns of a string pattern\<close>

lemma forEachFrom_firstError:
  "forEachFrom i f xs = firstError (map (\<lambda>j. f (xs ! j) (i + j)) [0..<length xs])"
proof (induction xs arbitrary: i)
  case Nil
  show ?case by simp
next
  case (Cons x xs)
  have "[0..<Suc (length xs)] = 0 # [Suc 0..<Suc (length xs)]"
    by (rule upt_conv_Cons) simp
  also have "[Suc 0..<Suc (length xs)] = map Suc [0..<length xs]"
    by (rule map_Suc_upt [symmetric])
  finally have "[0..<length (x # xs)] = 0 # map Suc [0..<length xs]"
    by simp
  then have "map (\<lambda>j. f ((x # xs) ! j) (i + j)) [0..<length (x # xs)]
      = f x i # map (\<lambda>j. f (xs ! j) (Suc i + j)) [0..<length xs]"
    by (simp add: comp_def del: upt_Suc)
  with Cons.IH [of "Suc i"] show ?case by (simp split: sum.splits del: upt_Suc)
qed

lemma forEach_firstError:
  "forEach f xs = firstError (map (\<lambda>j. f (xs ! j) j) [0..<length xs])"
  using forEachFrom_firstError [of 0 f xs] by (simp add: forEach_def)

lemma checkArray_passes: "checkArray item name = Inr () \<Longrightarrow> \<exists>r xs. item = Arr r xs"
  by (cases item) (auto simp: checkArray_def throwPatternError_def)

lemma nameOrDefault_append: "suffix \<noteq> [] \<Longrightarrow> nameOrDefault (name @ suffix) = name @ suffix"
  by (simp add: nameOrDefault_def)

text \<open>
  C6.  In a string pattern whose type token is followed by a sub-pattern, once the value
  has passed the check of the type token: for \<open>array\<close> the sub-pattern is checked against
  every element in order, under the name suffixed with \<open>[index]\<close>, up to the first element
  that raises; for \<open>observable\<close> it is checked against the result of calling the value
  with no arguments, under the name suffixed with \<open>()\<close>; for any other type the
  configuration error "Invalid pattern: <pattern>" is raised.  So
  \<open>check([1, "a"], "array number")\<close> raises a pattern error naming \<open>[1]\<close> and
  \<open>check([1, 2], "array number")\<close> passes.
\<close>

theorem string_sub_pattern:
  assumes "currentTypeOf p \<noteq> ''optional''" and "currentTypeOf p \<noteq> ''nullable''"
    and "item \<noteq> Undefined" and "item \<noteq> Null"
    and "checkType h ko item (Str (currentTypeOf p)) (nameOrDefault name) = Inr ()"
    and "remainingPatternOf p \<noteq> []"
  shows "checkPattern h ko item (Str p) name =
      (if currentTypeOf p = ''array'' then
         firstError
           (map (\<lambda>index. checkPattern h ko (elementsOf item ! index) (Str (remainingPatternOf p))
                           (nameOrDefault name @ ''['' @ showNat index @ '']''))
              [0..<length (elementsOf item)])
       else if currentTypeOf p = ''observable'' then
         (case callValue h item [] of
            Inl e \<Rightarrow> Inl e
          | Inr contents \<Rightarrow>
              checkPattern h ko contents (Str (remainingPatternOf p)) (nameOrDefault name @ ''()''))
       else throwConfigError (''Invalid pattern: '' @ p))"
proof -
  have inner: "checkPattern h ko x (Str q) (n @ suffix) = checkStringPattern h ko x q (n @ suffix)"
    if "suffix \<noteq> []" for x q n suffix
    using that by (simp add: checkPattern.simps nameOrDefault_append)
  have unfold: "checkPattern h ko item (Str p) name =
      (if currentTypeOf p = ''array'' then
         (case item of
            Arr r xs \<Rightarrow>
              forEach (\<lambda>element index.
                checkStringPattern h ko element (remainingPatternOf p)
                  (nameOrDefault name @ ''['' @ showNat index @ '']'')) xs
          | _ \<Rightarrow> Inl TypeError)
       else if currentTypeOf p = ''observable'' then
         (case callValue h item [] of
            Inl e \<Rightarrow> Inl e
          | Inr contents \<Rightarrow>
              checkStringPattern h ko contents (remainingPatternOf p) (nameOrDefault name @ ''()''))
       else throwConfigError (''Invalid pattern: '' @ p))"
    using assms
    by (simp add: checkPattern.simps checkStringPattern.simps [of _ _ _ p]
        nonRequiredName_def nullableName_def)
  show ?thesis
  proof (cases "currentTypeOf p = ''array''")
    case True
    with assms(5) have "checkArray item (nameOrDefault name) = Inr ()"
      by (simp add: checkType_def typeCheckers_def)
    then obtain r xs where item: "item = Arr r xs"
      using checkArray_passes by blast
    have "checkPattern h ko item (Str p) name =
        forEach (\<lambda>element index.
                checkStringPattern h ko element (remainingPatternOf p)
                  (nameOrDefault name @ ''['' @ showNat index @ '']'')) xs"
      using unfold True item by simp
    also have "\<dots> = firstError
           (map (\<lambda>index. checkStringPattern h ko (xs ! index) (remainingPatternOf p)
                           (nameOrDefault name @ ''['' @ showNat index @ '']''))
              [0..<length xs])"
      by (rule forEach_firstError)
    also have "\<dots> = firstError
           (map (\<lambda>index. checkPattern h ko (xs ! index) (Str (remainingPatternOf p))
                           (nameOrDefault name @ ''['' @ showNat index @ '']''))
              [0..<length xs])"
      by (simp add: inner)
    finally show ?thesis using True item by simp
  next
    case False
    then show ?thesis using unfold by (simp add: inner split: sum.split)
  qed
qed

theorem string_sub_pattern_witness:
  "checkPattern plainHost Undefined (Arr 1 [Num (Fin 1), Str ''a'']) (Str ''array number'') ''''
     = throwPatternError ''configObject[1] should have number type!''
   \<and> checkPattern plainHost Undefined (Arr 1 [Num (Fin 1), Num (Fin 2)]) (Str ''array number'') ''''
     = Inr ()
   \<and> checkPattern koHost koLibrary (Func 2) (Str ''observable string'') ''''
     = throwPatternError ''configObject() should have string type!''
   \<and> checkPattern plainHost Undefined (Str ''x'') (Str ''string number'') ''''
     = throwConfigError ''Invalid pattern: string number''"
proof -
  have tok: "currentTypeOf ''array number'' = ''array''"
    "remainingPatternOf ''array number'' = ''number''"
    "currentTypeOf ''observable string'' = ''observable''"
    "remainingPatternOf ''observable string'' = ''string''"
    "currentTypeOf ''string number'' = ''string''"
    "remainingPatternOf ''string number'' = ''number''"
    by (simp_all add: currentTypeOf_def remainingPatternOf_def)
  have ty: "checkType plainHost Undefined (Arr 1 [Num (Fin 1), Str ''a'']) (Str ''array'')
        (nameOrDefault '''') = Inr ()"
    "checkType plainHost Undefined (Arr 1 [Num (Fin 1), Num (Fin 2)]) (Str ''array'')
        (nameOrDefault '''') = Inr ()"
    "checkType koHost koLibrary (Func 2) (Str ''observable'') (nameOrDefault '''') = Inr ()"
    "checkType plainHost Undefined (Str ''x'') (Str ''string'') (nameOrDefault '''') = Inr ()"
    by code_simp+
  have el: "checkPattern plainHost Undefined (Num (Fin 1)) (Str ''number'') ''configObject[0]''
        = Inr ()"
    "checkPattern plainHost Undefined (Num (Fin 2)) (Str ''number'') ''configObject[1]''
        = Inr ()"
    "checkPattern plainHost Undefined (Str ''a'') (Str ''number'') ''configObject[1]''
        = throwPatternError ''configObject[1] should have number type!''"
    "checkPattern koHost koLibrary (Num (Fin 7)) (Str ''string'') ''configObject()''
        = throwPatternError ''configObject() should have string type!''"
    by code_simp+
  have sh: "showNat 0 = ''0''" "showNat 1 = ''1''" by code_simp+
  have cv: "callValue koHost (Func 2) [] = Inr (Num (Fin 7))" by code_simp
  have a: "checkPattern plainHost Undefined (Arr 1 [Num (Fin 1), Str ''a''])
      (Str ''array number'') '''' = throwPatternError ''configObject[1] should have number type!''"
    using string_sub_pattern [of "''array number''" "Arr 1 [Num (Fin 1), Str ''a'']"
        plainHost Undefined "''''"] tok ty el sh
    by (simp add: nameOrDefault_def defaultName_def throwPatternError_def upt_rec [of 0]
        upt_rec [of 1])
  have b: "checkPattern plainHost Undefined (Arr 1 [Num (Fin 1), Num (Fin 2)])
      (Str ''array number'') '''' = Inr ()"
    using string_sub_pattern [of "''array number''" "Arr 1 [Num (Fin 1), Num (Fin 2)]"
        plainHost Undefined "''''"] tok ty el sh
    by (simp add: nameOrDefault_def defaultName_def throwPatternError_def upt_rec [of 0]
        upt_rec [of 1])
  have c: "checkPattern koHost koLibrary (Func 2) (Str ''observable string'') ''''
     = throwPatternError ''configObject() should have string type!''"
    using string_sub_pattern [of "''observable string''" "Func 2" koHost koLibrary "''''"]
      tok ty el cv
    by (simp add: nameOrDefault_def defaultName_def throwPatternError_def)
  have d: "checkPattern plainHost Undefined (Str ''x'') (Str ''string number'') ''''
     = throwConfigError ''Invalid pattern: string number''"
    using string_sub_pattern [of "''string number''" "Str ''x''" plainHost Undefined "''''"]
      tok ty
    by simp
  from a b c d show ?thesis by simp
qed

subsection \<open>Modifiers of a string pattern\<close>

lemma modifier_examples:
  "currentTypeOf ''optional string'' = ''optional''"
  "currentTypeOf ''nullable number'' = ''nullable''"
  "currentTypeOf ''string'' = ''string''"
  "currentTypeOf ''number'' = ''number''"
  by (simp_all add: currentTypeOf_def)

text \<open>
  C7.  \<open>check(undefined, "optional string")\<close> returns and \<open>check(undefined, "string")\<close>
  raises the pattern error "<name> is mandatory!"; \<open>check(null, "nullable number")\<close>
  returns and \<open>check(null, "number")\<close> raises "<name> shouldn't be null!".  In general a
  leading \<open>optional\<close> passes an \<open>undefined\<close> value and a leading \<open>nullable\<close> passes a
  \<open>null\<close> value; otherwise the token is dropped and the same value is checked against the
  rest of the pattern.
\<close>

theorem string_modifiers:
  "checkPattern h ko Undefined (Str ''optional string'') name = Inr ()
   \<and> checkPattern h ko Undefined (Str ''string'') name
       = throwPatternError (nameOrDefault name @ '' is mandatory!'')
   \<and> checkPattern h ko Null (Str ''nullable number'') name = Inr ()
   \<and> checkPattern h ko Null (Str ''number'') name
       = throwPatternError (nameOrDefault name @ '' shouldn't be null!'')
   \<and> (currentTypeOf p = ''optional'' \<longrightarrow>
        checkPattern h ko item (Str p) name =
          (if item = Undefined then Inr ()
           else checkPattern h ko item (Str (remainingPatternOf p)) name))
   \<and> (currentTypeOf p = ''nullable'' \<longrightarrow>
        checkPattern h ko item (Str p) name =
          (if item = Null then Inr ()
           else checkPattern h ko item (Str (remainingPatternOf p)) name))"
proof (intro conjI impI)
  show "checkPattern h ko Undefined (Str ''optional string'') name = Inr ()"
    by (simp add: checkPattern.simps checkStringPattern.simps [of _ _ _ "''optional string''"]
        modifier_examples nonRequiredName_def)
  show "checkPattern h ko Undefined (Str ''string'') name
      = throwPatternError (nameOrDefault name @ '' is mandatory!'')"
    by (simp add: checkPattern.simps checkStringPattern.simps [of _ _ _ "''string''"]
        modifier_examples nonRequiredName_def nullableName_def)
  show "checkPattern h ko Null (Str ''nullable number'') name = Inr ()"
    by (simp add: checkPattern.simps checkStringPattern.simps [of _ _ _ "''nullable number''"]
        modifier_examples nonRequiredName_def nullableName_def)
  show "checkPattern h ko Null (Str ''number'') name
      = throwPatternError (nameOrDefault name @ '' shouldn't be null!'')"
    by (simp add: checkPattern.simps checkStringPattern.simps [of _ _ _ "''number''"]
        modifier_examples nonRequiredName_def nullableName_def)
next
  assume "currentTypeOf p = ''optional''"
  then show "checkPattern h ko item (Str p) name =
      (if item = Undefined then Inr ()
       else checkPattern h ko item (Str (remainingPatternOf p)) name)"
    by (simp add: checkPattern.simps checkStringPattern.simps [of _ _ _ p] nonRequiredName_def)
next
  assume "currentTypeOf p = ''nullable''"
  then show "checkPattern h ko item (Str p) name =
      (if item = Null then Inr ()
       else checkPattern h ko item (Str (remainingPatternOf p)) name)"
    by (simp add: checkPattern.simps checkStringPattern.simps [of _ _ _ p]
        nonRequiredName_def nullableName_def)
qed

theorem string_modifiers_witness:
  "currentTypeOf ''optional nullable number'' = ''optional''
   \<and> currentTypeOf ''nullable number'' = ''nullable''
   \<and> checkPattern plainHost Undefined Null (Str ''optional nullable number'') '''' = Inr ()
   \<and> checkPattern plainHost Undefined (Str ''x'') (Str ''optional nullable number'') ''''
       = throwPatternError ''configObject should have number type!''"
proof -
  have a: "currentTypeOf ''optional nullable number'' = ''optional''"
    and b: "remainingPatternOf ''optional nullable number'' = ''nullable number''"
    and c: "currentTypeOf ''nullable number'' = ''nullable''"
    and d: "remainingPatternOf ''nullable number'' = ''number''"
    by (simp_all add: currentTypeOf_def remainingPatternOf_def)
  have e: "checkPattern plainHost Undefined (Str ''x'') (Str ''number'') ''''
      = throwPatternError ''configObject should have number type!''"
    by code_simp
  from string_modifiers [of plainHost Undefined "''''" "''optional nullable number''" Null]
    string_modifiers [of plainHost Undefined "''''" "''nullable number''" Null]
    string_modifiers [of plainHost Undefined "''''" "''optional nullable number''" "Str ''x''"]
    string_modifiers [of plainHost Undefined "''''" "''nullable number''" "Str ''x''"]
    a b c d e
  show ?thesis by simp
qed

subsection \<open>Shorthand field paths\<close>

lemma getProp_container: "isContainer v \<Longrightarrow> getProp h v k = Inr (propOf h v k)"
  by (cases v) (auto simp: isContainer_def propOf_def split: option.splits)

lemma containerAt_Suc:
  "containerAt h item (k # ks) (Suc n) = containerAt h (propOf h item k) ks n"
  by (simp add: containerAt_def)

lemma pathAt_Suc: "pathAt name (k # ks) (Suc n) = pathAt (name @ ''.'' @ k) ks n"
  by (simp add: pathAt_def)

lemma walkKeys_stops:
  assumes "n < length keys"
    and "\<And>i. i < n \<Longrightarrow> isContainer (containerAt h item keys i)"
    and "typeOf (containerAt h item keys n) \<noteq> ''object''"
  shows "walkKeys h item name keys
           = throwPatternError (pathAt name keys n @ '' should have object type!'')"
  using assms
proof (induction keys arbitrary: item name n)
  case Nil
  then show ?case by simp
next
  case (Cons k ks)
  show ?case
  proof (cases n)
    case 0
    with Cons.prems(3) show ?thesis by (simp add: containerAt_def pathAt_def)
  next
    case (Suc m)
    have "isContainer (containerAt h item (k # ks) 0)"
      using Cons.prems(2) [of 0] Suc by simp
    then have c: "isContainer item" by (simp add: containerAt_def)
    then have t: "typeOf item = ''object''" by (simp add: isContainer_def)
    have g: "getProp h item k = Inr (propOf h item k)"
      using c by (rule getProp_container)
    have "walkKeys h (propOf h item k) (name @ ''.'' @ k) ks
        = throwPatternError (pathAt (name @ ''.'' @ k) ks m @ '' should have object type!'')"
    proof (rule Cons.IH)
      show "m < length ks" using Cons.prems(1) Suc by simp
      show "isContainer (containerAt h (propOf h item k) ks i)" if "i < m" for i
        using Cons.prems(2) [of "Suc i"] that Suc by (simp add: containerAt_Suc)
      show "typeOf (containerAt h (propOf h item k) ks m) \<noteq> ''object''"
        using Cons.prems(3) Suc by (simp add: containerAt_Suc)
    qed
    with t g Suc show ?thesis by (simp add: pathAt_Suc)
  qed
qed

lemma walkKeys_arrives:
  assumes "\<And>i. i < length keys \<Longrightarrow> isContainer (containerAt h item keys i)"
  shows "walkKeys h item name keys
           = Inr (containerAt h item keys (length keys), pathAt name keys (length keys))"
  using assms
proof (induction keys arbitrary: item name)
  case Nil
  show ?case by (simp add: containerAt_def pathAt_def)
next
  case (Cons k ks)
  have "isContainer (containerAt h item (k # ks) 0)"
    using Cons.prems [of 0] by simp
  then have c: "isContainer item" by (simp add: containerAt_def)
  then have t: "typeOf item = ''object''" by (simp add: isContainer_def)
  have g: "getProp h item k = Inr (propOf h item k)"
    using c by (rule getProp_container)
  have "walkKeys h (propOf h item k) (name @ ''.'' @ k) ks
      = Inr (containerAt h (propOf h item k) ks (length ks),
             pathAt (name @ ''.'' @ k) ks (length ks))"
  proof (rule Cons.IH)
    show "isContainer (containerAt h (propOf h item k) ks i)" if "i < length ks" for i
      using Cons.prems [of "Suc i"] that by (simp add: containerAt_Suc)
  qed
  with t g show ?case by (simp add: pathAt_Suc containerAt_Suc)
qed

text \<open>
  What holds of the walk along a dotted key.  If the first \<open>n\<close> containers can be read
  and the next value does not have \<open>typeof\<close> \<open>"object"\<close>, the pattern error
  "<path so far> should have object type!" is raised; if every container can be read, the
  leaf and the full path go to \<open>checkPattern\<close>.  The three examples of the specification
  are instances.
\<close>

theorem shorthand_field_path:
  "(n < length (js_split CHR ''.'' prop)
      \<and> (\<forall>i<n. isContainer (containerAt h item (js_split CHR ''.'' prop) i))
      \<and> typeOf (containerAt h item (js_split CHR ''.'' prop) n) \<noteq> ''object'' \<longrightarrow>
      checkShorthandPattern h ko item prop pattern name
        = throwPatternError
            (pathAt name (js_split CHR ''.'' prop) n @ '' should have object type!''))
   \<and> ((\<forall>i<length (js_split CHR ''.'' prop).
          isContainer (containerAt h item (js_split CHR ''.'' prop) i)) \<longrightarrow>
      checkShorthandPattern h ko item prop pattern name
        = checkPattern h ko
            (containerAt h item (js_split CHR ''.'' prop) (length (js_split CHR ''.'' prop)))
            pattern
            (pathAt name (js_split CHR ''.'' prop) (length (js_split CHR ''.'' prop))))
   \<and> checkPattern plainHost Undefined (Obj 1 [(''a'', Obj 2 [(''b'', Str ''x'')])])
        (Obj 3 [(''a.b'', Str ''string'')]) '''' = Inr ()
   \<and> checkPattern plainHost Undefined (Obj 1 [(''a'', Obj 2 [(''b'', Num (Fin 5))])])
        (Obj 3 [(''a.b'', Str ''string'')]) ''''
        = throwPatternError ''configObject.a.b should have string type!''
   \<and> checkPattern plainHost Undefined (Obj 1 [(''a'', Str ''notAnObject'')])
        (Obj 3 [(''a.b'', Str ''string'')]) ''''
        = throwPatternError ''configObject.a should have object type!''"
proof (intro conjI impI)
  assume a: "n < length (js_split CHR ''.'' prop)
      \<and> (\<forall>i<n. isContainer (containerAt h item (js_split CHR ''.'' prop) i))
      \<and> typeOf (containerAt h item (js_split CHR ''.'' prop) n) \<noteq> ''object''"
  have "walkKeys h item name (js_split CHR ''.'' prop)
      = throwPatternError (pathAt name (js_split CHR ''.'' prop) n @ '' should have object type!'')"
    using a by (intro walkKeys_stops) auto
  then show "checkShorthandPattern h ko item prop pattern name
        = throwPatternError
            (pathAt name (js_split CHR ''.'' prop) n @ '' should have object type!'')"
    by (simp add: checkShorthandPattern.simps throwPatternError_def)
next
  assume a: "\<forall>i<length (js_split CHR ''.'' prop).
          isContainer (containerAt h item (js_split CHR ''.'' prop) i)"
  have "walkKeys h item name (js_split CHR ''.'' prop)
      = Inr (containerAt h item (js_split CHR ''.'' prop) (length (js_split CHR ''.'' prop)),
             pathAt name (js_split CHR ''.'' prop) (length (js_split CHR ''.'' prop)))"
    using a by (intro walkKeys_arrives) auto
  then show "checkShorthandPattern h ko item prop pattern name
        = checkPattern h ko
            (containerAt h item (js_split CHR ''.'' prop) (length (js_split CHR ''.'' prop)))
            pattern
            (pathAt name (js_split CHR ''.'' prop) (length (js_split CHR ''.'' prop)))"
    by (simp add: checkShorthandPattern.simps)
next
  show "checkPattern plainHost Undefined (Obj 1 [(''a'', Obj 2 [(''b'', Str ''x'')])])
        (Obj 3 [(''a.b'', Str ''string'')]) '''' = Inr ()"
    by code_simp
  show "checkPattern plainHost Undefined (Obj 1 [(''a'', Obj 2 [(''b'', Num (Fin 5))])])
        (Obj 3 [(''a.b'', Str ''string'')]) ''''
        = throwPatternError ''configObject.a.b should have string type!''"
    by code_simp
  show "checkPattern plainHost Undefined (Obj 1 [(''a'', Str ''notAnObject'')])
        (Obj 3 [(''a.b'', Str ''string'')]) ''''
        = throwPatternError ''configObject.a should have object type!''"
    by code_simp
qed

theorem shorthand_field_path_witness:
  "checkShorthandPattern plainHost Undefined (Obj 1 [(''a'', Str ''notAnObject'')]) ''a.b''
      (Str ''string'') ''configObject''
     = throwPatternError ''configObject.a should have object type!''
   \<and> checkShorthandPattern plainHost Undefined (Obj 1 [(''a'', Obj 2 [(''b'', Num (Fin 5))])])
      ''a.b'' (Str ''string'') ''configObject''
     = checkPattern plainHost Undefined (Num (Fin 5)) (Str ''string'') ''configObject.a.b''"
proof -
  let ?keys = "js_split CHR ''.'' ''a.b''"
  let ?bad = "Obj 1 [(''a'', Str ''notAnObject'')]"
  let ?good = "Obj 1 [(''a'', Obj 2 [(''b'', Num (Fin 5))])]"
  have stop: "Suc 0 < length ?keys
      \<and> (\<forall>i<Suc 0. isContainer (containerAt plainHost ?bad ?keys i))
      \<and> typeOf (containerAt plainHost ?bad ?keys (Suc 0)) \<noteq> ''object''"
    by (simp add: containerAt_def propOf_def isContainer_def plainHost_def)
  have path1: "pathAt ''configObject'' ?keys (Suc 0) = ''configObject.a''"
    by (simp add: pathAt_def)
  have arrive: "\<forall>i<length ?keys. isContainer (containerAt plainHost ?good ?keys i)"
    by (auto simp: less_Suc_eq containerAt_def propOf_def isContainer_def plainHost_def)
  have leaf: "containerAt plainHost ?good ?keys (length ?keys) = Num (Fin 5)"
    by (simp add: containerAt_def propOf_def plainHost_def)
  have path2: "pathAt ''configObject'' ?keys (length ?keys) = ''configObject.a.b''"
    by (simp add: pathAt_def)
  have "checkShorthandPattern plainHost Undefined ?bad ''a.b'' (Str ''string'') ''configObject''
      = throwPatternError (pathAt ''configObject'' ?keys (Suc 0) @ '' should have object type!'')"
    using shorthand_field_path [of "Suc 0" "''a.b''" plainHost ?bad Undefined "Str ''string''"
        "''configObject''"] stop
    by blast
  moreover have "checkShorthandPattern plainHost Undefined ?good ''a.b'' (Str ''string'')
        ''configObject''
      = checkPattern plainHost Undefined (containerAt plainHost ?good ?keys (length ?keys))
          (Str ''string'') (pathAt ''configObject'' ?keys (length ?keys))"
    using shorthand_field_path [of 0 "''a.b''" plainHost ?good Undefined "Str ''string''"
        "''configObject''"] arrive
    by blast
  ultimately show ?thesis
    by (simp only: path1 path2 leaf) simp
qed

text \<open>
  C8.  The specification says that at each step the container must be an object, or else
  the pattern error is raised, and that otherwise the leaf is dispatched.  The test is
  \<open>typeof current !== "object"\<close>, which \<open>null\<close> passes: when the value at \<open>a\<close> is
  \<open>null\<close>, the key \<open>a.b\<close> makes the engine read \<open>null["b"]\<close>, and a \<open>TypeError\<close> is
  thrown, whatever the sub-pattern.  Neither the pattern error nor the dispatch happens.
\<close>

theorem shorthand_null_container_type_error:
  "checkPattern h ko (Obj r [(''a'', Null)]) (Obj r' [(''a.b'', sub)]) name = Inl TypeError"
  by (simp add: checkPattern.simps checkObjectPattern.simps checkShorthandPattern.simps
      typeOrDefault_def checkType_def typeCheckers_def createSimpleTypeChecker_def)

subsection \<open>Absent and \<open>null\<close> values under an object pattern\<close>

lemma getOwn_object_like:
  assumes "typeOf pattern = ''object''" and "pattern \<noteq> Null"
  shows "\<exists>v. getOwn pattern k = Inr v"
  using assms by (cases pattern) (auto split: option.splits)

lemma strictEq_Bool: "strictEq v (Bool b) \<longleftrightarrow> v = Bool b"
  by (cases v) (auto simp: strictEq_def)

text \<open>
  C9.  For an object pattern \<open>p\<close>: an \<open>undefined\<close> value passes if and only if
  \<open>p.__required === false\<close> and otherwise raises "<name> is mandatory!"; a \<open>null\<close> value
  passes if and only if \<open>p.__nullable === true\<close> and otherwise raises
  "<name> shouldn't be null!".  In both cases the outcome is fixed by that one key: nothing
  else of the pattern is consulted.
\<close>

theorem object_pattern_absent_and_null:
  assumes "typeOf pattern = ''object''" and "pattern \<noteq> Null"
  shows "checkPattern h ko Undefined pattern name =
           (if getOwn pattern ''__required'' = Inr (Bool False) then Inr ()
            else throwPatternError (nameOrDefault name @ '' is mandatory!''))
       \<and> checkPattern h ko Null pattern name =
           (if getOwn pattern ''__nullable'' = Inr (Bool True) then Inr ()
            else throwPatternError (nameOrDefault name @ '' shouldn't be null!''))"
proof -
  obtain req where req: "getOwn pattern ''__required'' = Inr req"
    using getOwn_object_like [OF assms] by blast
  obtain nl where nl: "getOwn pattern ''__nullable'' = Inr nl"
    using getOwn_object_like [OF assms] by blast
  have "checkPattern h ko Undefined pattern name =
          (if req = Bool False then Inr ()
           else throwPatternError (nameOrDefault name @ '' is mandatory!''))"
    using assms(1) req by (simp add: checkPattern.simps checkObjectPattern.simps strictEq_Bool)
  moreover have "checkPattern h ko Null pattern name =
          (if nl = Bool True then Inr ()
           else throwPatternError (nameOrDefault name @ '' shouldn't be null!''))"
    using assms(1) nl by (simp add: checkPattern.simps checkObjectPattern.simps strictEq_Bool)
  ultimately show ?thesis using req nl by simp
qed

theorem object_pattern_absent_and_null_witness:
  "typeOf (Obj 1 [(''__required'', Bool False)]) = ''object''
   \<and> Obj 1 [(''__required'', Bool False)] \<noteq> Null
   \<and> checkPattern plainHost Undefined Undefined (Obj 1 [(''__required'', Bool False)]) '''' = Inr ()
   \<and> checkPattern plainHost Undefined Null (Obj 1 [(''__required'', Bool False)]) ''''
       = throwPatternError ''configObject shouldn't be null!''"
  using object_pattern_absent_and_null
    [of "Obj 1 [(''__required'', Bool False)]" plainHost Undefined "''''"]
  by (simp add: nameOrDefault_def defaultName_def)

subsection \<open>Registering the reactive library\<close>

lemma extend_cases:
  "(\<exists>e. extendSuperSchema h config ko = (Inl e, ko))
   \<or> (\<exists>lib f. extendSuperSchema h config ko = (Inr (), lib)
        \<and> typeOf config = ''object'' \<and> truthy lib \<and> typeOf lib = ''object''
        \<and> getProp h lib ''isObservable'' = Inr f \<and> typeOf f = ''function'')"
  by (simp add: extendSuperSchema_def throwConfigError_def split: sum.split)

text \<open>
  C10.  \<open>extend(config)\<close> assigns \<open>koInstance\<close> only after every validation of \<open>config\<close>
  has passed.  When \<open>extend\<close> raises, \<open>koInstance\<close> is what it was before the call (the
  initial \<open>undefined\<close> included), so every later check has the outcome it would have had
  without the call; when \<open>extend\<close> returns, \<open>config\<close> is an object and the stored handle
  is a truthy object whose \<open>isObservable\<close> is a function.
\<close>

theorem extend_atomic:
  "(fst (extendSuperSchema h config ko) \<noteq> Inr () \<longrightarrow>
      snd (extendSuperSchema h config ko) = ko
      \<and> checkPattern h (snd (extendSuperSchema h config ko)) item pattern name
          = checkPattern h ko item pattern name)
   \<and> (fst (extendSuperSchema h config ko) = Inr () \<longrightarrow>
        typeOf config = ''object''
        \<and> truthy (snd (extendSuperSchema h config ko))
        \<and> typeOf (snd (extendSuperSchema h config ko)) = ''object''
        \<and> (\<exists>f. getProp h (snd (extendSuperSchema h config ko)) ''isObservable'' = Inr f
                \<and> typeOf f = ''function''))"
proof -
  from extend_cases [of h config ko] show ?thesis
  proof
    assume "\<exists>e. extendSuperSchema h config ko = (Inl e, ko)"
    then show ?thesis by auto
  next
    assume "\<exists>lib f. extendSuperSchema h config ko = (Inr (), lib)
        \<and> typeOf config = ''object'' \<and> truthy lib \<and> typeOf lib = ''object''
        \<and> getProp h lib ''isObservable'' = Inr f \<and> typeOf f = ''function''"
    then show ?thesis by auto
  qed
qed

theorem extend_atomic_witness:
  "fst (extendSuperSchema koHost (Obj 11 [(''ko'', Num (Fin 3))]) koLibrary) \<noteq> Inr ()
   \<and> snd (extendSuperSchema koHost (Obj 11 [(''ko'', Num (Fin 3))]) koLibrary) = koLibrary
   \<and> checkPattern koHost (snd (extendSuperSchema koHost (Obj 11 [(''ko'', Num (Fin 3))]) koLibrary))
        (Func 2) (Str ''observable'') '''' = Inr ()
   \<and> fst (extendSuperSchema koHost (Obj 12 [(''knockout'', koLibrary)]) Undefined) = Inr ()
   \<and> snd (extendSuperSchema koHost (Obj 12 [(''knockout'', koLibrary)]) Undefined) = koLibrary"
proof -
  have a: "fst (extendSuperSchema koHost (Obj 11 [(''ko'', Num (Fin 3))]) koLibrary) \<noteq> Inr ()"
    by code_simp
  have b: "checkPattern koHost koLibrary (Func 2) (Str ''observable'') '''' = Inr ()"
    by code_simp
  have c: "fst (extendSuperSchema koHost (Obj 12 [(''knockout'', koLibrary)]) Undefined) = Inr ()"
    by code_simp
  have d: "snd (extendSuperSchema koHost (Obj 12 [(''knockout'', koLibrary)]) Undefined) = koLibrary"
    by code_simp
  from extend_atomic [of koHost "Obj 11 [(''ko'', Num (Fin 3))]" koLibrary "Func 2"
      "Str ''observable''" "''''"] a b c d
  show ?thesis by simp
qed

end
